theory Spec2Isabelle
  imports Complex_Main
begin

section \<open>Advisor agent: risk scorer and recommendation builder\<close>

text \<open>
  A shallow embedding of \<^verbatim>\<open>src/lambda/advisor_agent/app.py\<close>: the three threshold
  ladders, \<^verbatim>\<open>compute_risk\<close>, \<^verbatim>\<open>build_recommendations\<close> and the risk-level
  classification of \<^verbatim>\<open>lambda_handler\<close>.

  Conventions of the embedding.
  \<^item> A Python \<^verbatim>\<open>float\<close> is a \<open>pyfloat\<close>: a finite value (a real number; every double
    is one), the two infinities, or NaN. The ladders only return the finite literals
    of the source, so the partial scores and their sum are reals; the sum is taken
    exactly (the rounding of double addition is not modelled).
  \<^item> A Python \<^verbatim>\<open>int\<close> is an \<open>int\<close> (unbounded in both).
  \<^item> A payload is a \<^verbatim>\<open>Dict[str, Any]\<close> as \<^verbatim>\<open>json.loads\<close> builds it: a map from
    keys to \<open>pyval\<close>, the values JSON can carry.
  \<^item> A raised exception is \<open>Inl\<close> of a \<open>py_error\<close>; a returned value is \<open>Inr\<close>.
  \<^item> A Python \<^verbatim>\<open>str\<close> is a \<open>string\<close> holding its UTF-8 bytes.
\<close>

subsection \<open>Python values and the builtin coercions\<close>

datatype pyfloat = Fin real | PInf | NInf | NaN

datatype pyval =
    PNone
  | PBool bool
  | PInt int
  | PFloat pyfloat
  | PStr string
  | PList "pyval list"
  | PDict "(string \<times> pyval) list"

datatype py_error = TypeError | ValueError | OverflowError

text \<open>
  What \<^verbatim>\<open>int(s)\<close> and \<^verbatim>\<open>float(s)\<close> return on a string is Python's own parser, not code
  of this program: it is a parameter of the model. \<open>None\<close> stands for the
  \<^verbatim>\<open>ValueError\<close> both raise on a string they do not accept.
\<close>

record builtins =
  int_of_str :: "string \<Rightarrow> int option"
  float_of_str :: "string \<Rightarrow> pyfloat option"

text \<open>\<^verbatim>\<open>int(x)\<close>: truncation towards zero on a finite float, \<^verbatim>\<open>OverflowError\<close> on an
  infinity, \<^verbatim>\<open>ValueError\<close> on NaN and on a rejected string, \<^verbatim>\<open>TypeError\<close> on
  \<^verbatim>\<open>None\<close>, a list or a dict.\<close>

fun py_int :: "builtins \<Rightarrow> pyval \<Rightarrow> py_error + int" where
  "py_int B PNone = Inl TypeError"
| "py_int B (PBool b) = Inr (if b then 1 else 0)"
| "py_int B (PInt n) = Inr n"
| "py_int B (PFloat (Fin r)) = Inr (if 0 \<le> r then \<lfloor>r\<rfloor> else \<lceil>r\<rceil>)"
| "py_int B (PFloat PInf) = Inl OverflowError"
| "py_int B (PFloat NInf) = Inl OverflowError"
| "py_int B (PFloat NaN) = Inl ValueError"
| "py_int B (PStr s) = (case int_of_str B s of None \<Rightarrow> Inl ValueError | Some n \<Rightarrow> Inr n)"
| "py_int B (PList xs) = Inl TypeError"
| "py_int B (PDict kvs) = Inl TypeError"

text \<open>The least magnitude of an integer that \<^verbatim>\<open>float\<close> refuses with
  \<^verbatim>\<open>OverflowError\<close>: half an ulp above the largest double.\<close>

definition float_overflow_bound :: int where
  "float_overflow_bound = 2 ^ 1024 - 2 ^ 970"

text \<open>\<^verbatim>\<open>float(x)\<close>. The value of an integer in range is taken exactly: rounding to the
  nearest double is monotone and keeps 2, 4 and 7, so no comparison of the inactivity
  ladder changes.\<close>

fun py_float :: "builtins \<Rightarrow> pyval \<Rightarrow> py_error + pyfloat" where
  "py_float B PNone = Inl TypeError"
| "py_float B (PBool b) = Inr (Fin (if b then 1 else 0))"
| "py_float B (PInt n) =
     (if \<bar>n\<bar> < float_overflow_bound then Inr (Fin (of_int n)) else Inl OverflowError)"
| "py_float B (PFloat x) = Inr x"
| "py_float B (PStr s) = (case float_of_str B s of None \<Rightarrow> Inl ValueError | Some x \<Rightarrow> Inr x)"
| "py_float B (PList xs) = Inl TypeError"
| "py_float B (PDict kvs) = Inl TypeError"

text \<open>\<^verbatim>\<open>a >= b\<close> on floats: false whenever an operand is NaN.\<close>

fun py_ge :: "pyfloat \<Rightarrow> pyfloat \<Rightarrow> bool" where
  "py_ge NaN y = False"
| "py_ge x NaN = False"
| "py_ge PInf y = True"
| "py_ge x NInf = True"
| "py_ge (Fin a) (Fin b) = (b \<le> a)"
| "py_ge (Fin a) PInf = False"
| "py_ge NInf y = False"

text \<open>\<^verbatim>\<open>payload.get(key, default)\<close>.\<close>

definition dict_get :: "(string \<rightharpoonup> pyval) \<Rightarrow> string \<Rightarrow> pyval \<Rightarrow> pyval" where
  "dict_get payload key dflt = (case payload key of None \<Rightarrow> dflt | Some v \<Rightarrow> v)"

subsection \<open>The threshold ladders\<close>

definition days_inactive_to_score :: "pyfloat \<Rightarrow> real \<times> string option" where
  "days_inactive_to_score days_inactive =
     (if py_ge days_inactive (Fin 7) then (0.30, Some ''Inactive 7+ days'')
      else if py_ge days_inactive (Fin 4) then (0.18, Some ''Inactive 4+ days'')
      else if py_ge days_inactive (Fin 2) then (0.08, Some ''Inactive 2+ days'')
      else (0.0, None))"

definition missing_to_score :: "int \<Rightarrow> real \<times> string option" where
  "missing_to_score missing_14d =
     (if missing_14d \<ge> 3 then (0.35, Some ''3+ missing assignments (14d)'')
      else if missing_14d = 2 then (0.25, Some ''2 missing assignments (14d)'')
      else if missing_14d = 1 then (0.15, Some ''1 missing assignment (14d)'')
      else (0.0, None))"

definition grade_to_score :: "int \<Rightarrow> real \<times> string option" where
  "grade_to_score avg_grade_pct =
     (if avg_grade_pct < 70 then (0.35, Some ''Average grade < 70%'')
      else if avg_grade_pct < 80 then (0.20, Some ''Average grade < 80%'')
      else if avg_grade_pct < 85 then (0.10, Some ''Average grade < 85%'')
      else (0.0, None))"

subsection \<open>The risk scorer\<close>

text \<open>\<^verbatim>\<open>if f: factors.append(f)\<close>: \<^verbatim>\<open>None\<close> and the empty string are falsy.\<close>

definition append_if :: "string list \<Rightarrow> string option \<Rightarrow> string list" where
  "append_if factors f =
     (case f of None \<Rightarrow> factors | Some t \<Rightarrow> if t \<noteq> [] then factors @ [t] else factors)"

text \<open>The three coercions run in the source's order; the first that raises ends the
  call.\<close>

definition compute_risk :: "builtins \<Rightarrow> (string \<rightharpoonup> pyval) \<Rightarrow> py_error + (real \<times> string list)" where
  "compute_risk B payload =
     (case py_int B (dict_get payload ''missing_14d'' (PInt 0)) of
        Inl e \<Rightarrow> Inl e
      | Inr missing_14d \<Rightarrow>
     (case py_int B (dict_get payload ''avg_grade_pct'' (PInt 0)) of
        Inl e \<Rightarrow> Inl e
      | Inr avg_grade_pct \<Rightarrow>
     (case py_float B (dict_get payload ''days_inactive'' (PInt 0)) of
        Inl e \<Rightarrow> Inl e
      | Inr days_inactive \<Rightarrow>
          (let score0 = 0.0;
               factors0 = [];
               (s1, f1) = missing_to_score missing_14d;
               score1 = score0 + s1;
               factors1 = append_if factors0 f1;
               (s2, f2) = grade_to_score avg_grade_pct;
               score2 = score1 + s2;
               factors2 = append_if factors1 f2;
               (s3, f3) = days_inactive_to_score days_inactive;
               score3 = score2 + s3;
               factors3 = append_if factors2 f3
           in Inr (min score3 1.0, factors3)))))"

subsection \<open>The recommendation builder\<close>

text \<open>The fixed recommendation strings. The en dash and the em dash of the source
  are their three UTF-8 bytes.\<close>

definition rec_plan48 :: string where
  "rec_plan48 = ''Make a 48-hour plan to complete the missing assignments (start with the highest-weight items).''"

definition rec_email :: string where
  "rec_email = ''Email the instructor to confirm deadlines and ask what to prioritize first.''"

definition rec_practice :: string where
  "rec_practice = ''Block 45'' @ [CHR 0xE2, CHR 0x80, CHR 0x93] @
     ''60 minutes daily for targeted practice on weak topics (quiz + review mistakes).''"

definition rec_office_hours :: string where
  "rec_office_hours = ''Attend office hours or tutoring this week with 3 specific questions prepared.''"

definition rec_momentum :: string where
  "rec_momentum = ''Log in today and complete one small task (discussion post, quiz attempt, or reading notes) to restart momentum.''"

definition rec_schedule :: string where
  "rec_schedule = ''Create a weekly schedule: 3 study sessions + 1 catch-up session, and track completion.''"

definition rec_recall :: string where
  "rec_recall = ''Use active recall: summarize each module in 5 bullets, then self-test without notes.''"

definition rec_steady :: string where
  "rec_steady = ''Keep current pace'' @ [CHR 0xE2, CHR 0x80, CHR 0x94] @
     ''set one weekly checkpoint to ensure no assignments are missed.''"

definition rec_easiest :: string where
  "rec_easiest = ''Start with the easiest assignment to build confidence, then move to the next due item.''"

text \<open>\<^verbatim>\<open>sep.join(xs)\<close>.\<close>

fun join :: "string \<Rightarrow> string list \<Rightarrow> string" where
  "join sep [] = []"
| "join sep [x] = x"
| "join sep (x # y # ys) = x @ sep @ join sep (y # ys)"

text \<open>\<^verbatim>\<open>RISK_THRESHOLD\<close> is read from the environment when the module is loaded
  (\<^verbatim>\<open>float(os.getenv("RISK_THRESHOLD", "0.75"))\<close>): it is the parameter \<open>thr\<close>, any
  float, and \<open>RISK_THRESHOLD_default\<close> is its value when the variable is unset.\<close>

definition RISK_THRESHOLD_default :: pyfloat where
  "RISK_THRESHOLD_default = Fin 0.75"

definition build_recommendations ::
  "builtins \<Rightarrow> pyfloat \<Rightarrow> (string \<rightharpoonup> pyval) \<Rightarrow> pyfloat \<Rightarrow> string list \<Rightarrow> py_error + string list" where
  "build_recommendations B thr payload risk_score factors =
     (case py_int B (dict_get payload ''missing_14d'' (PInt 0)) of
        Inl e \<Rightarrow> Inl e
      | Inr missing_14d \<Rightarrow>
     (case py_int B (dict_get payload ''avg_grade_pct'' (PInt 0)) of
        Inl e \<Rightarrow> Inl e
      | Inr avg_grade_pct \<Rightarrow>
     (case py_float B (dict_get payload ''days_inactive'' (PInt 0)) of
        Inl e \<Rightarrow> Inl e
      | Inr days_inactive \<Rightarrow>
     (case py_int B (dict_get payload ''submitted_14d'' (PInt 0)) of
        Inl e \<Rightarrow> Inl e
      | Inr submitted_14d \<Rightarrow>
          (let recs0 = [];
               recs1 = (if missing_14d > 0 then recs0 @ [rec_plan48] @ [rec_email] else recs0);
               recs2 = (if avg_grade_pct < 80 then recs1 @ [rec_practice] @ [rec_office_hours]
                        else recs1);
               recs3 = (if py_ge days_inactive (Fin 4) then recs2 @ [rec_momentum] else recs2);
               recs4 = (if py_ge risk_score thr then recs3 @ [rec_schedule] @ [rec_recall]
                        else recs3 @ [rec_steady]);
               recs5 = (if submitted_14d = 0 then recs4 @ [rec_easiest] else recs4);
               recs6 = (if factors \<noteq> []
                        then recs5 @ [''Why this plan: '' @ join '', '' factors @ ''.'']
                        else recs5)
           in Inr recs6)))))"

text \<open>The classification of \<^verbatim>\<open>lambda_handler\<close>:
  \<^verbatim>\<open>"HIGH" if risk >= RISK_THRESHOLD else "LOW"\<close>.\<close>

definition risk_level :: "pyfloat \<Rightarrow> real \<Rightarrow> string" where
  "risk_level thr risk = (if py_ge (Fin risk) thr then ''HIGH'' else ''LOW'')"

subsection \<open>Inputs used for evaluation\<close>

text \<open>A parser parameter that rejects every string; the inputs below carry no
  strings in their signal keys, so no result here depends on it.\<close>

definition no_parse :: builtins where
  "no_parse = \<lparr>int_of_str = (\<lambda>s. None), float_of_str = (\<lambda>s. None)\<rparr>"

text \<open>The example request of the docstring of \<^verbatim>\<open>lambda_handler\<close>, signal keys only.\<close>

definition scenario_A :: "string \<rightharpoonup> pyval" where
  "scenario_A = [''avg_grade_pct'' \<mapsto> PInt 72, ''missing_14d'' \<mapsto> PInt 2,
                 ''submitted_14d'' \<mapsto> PInt 3, ''days_inactive'' \<mapsto> PInt 5]"

definition scenario_B :: "string \<rightharpoonup> pyval" where
  "scenario_B = [''missing_14d'' \<mapsto> PInt 3, ''avg_grade_pct'' \<mapsto> PInt 60,
                 ''days_inactive'' \<mapsto> PInt 8, ''submitted_14d'' \<mapsto> PInt 0]"

definition factors_A :: "string list" where
  "factors_A = [''2 missing assignments (14d)'', ''Average grade < 80%'', ''Inactive 4+ days'']"

definition factors_B :: "string list" where
  "factors_B = [''3+ missing assignments (14d)'', ''Average grade < 70%'', ''Inactive 7+ days'']"

text \<open>The slots of a payload that \<^verbatim>\<open>int(payload.get(key, 0))\<close>, respectively
  \<^verbatim>\<open>float(payload.get(key, 0))\<close>, converts: an absent key, an integer (for \<^verbatim>\<open>float\<close>
  one below the overflow bound), a boolean, a float (for \<^verbatim>\<open>int\<close> a finite one), or a
  string that the parser accepts. \<^verbatim>\<open>None\<close>, lists and dicts are not among them.\<close>

fun int_accepts :: "builtins \<Rightarrow> pyval option \<Rightarrow> bool" where
  "int_accepts B None = True"
| "int_accepts B (Some (PInt n)) = True"
| "int_accepts B (Some (PBool b)) = True"
| "int_accepts B (Some (PFloat (Fin r))) = True"
| "int_accepts B (Some (PStr s)) = (int_of_str B s \<noteq> None)"
| "int_accepts B (Some v) = False"

fun float_accepts :: "builtins \<Rightarrow> pyval option \<Rightarrow> bool" where
  "float_accepts B None = True"
| "float_accepts B (Some (PInt n)) = (\<bar>n\<bar> < float_overflow_bound)"
| "float_accepts B (Some (PBool b)) = True"
| "float_accepts B (Some (PFloat x)) = True"
| "float_accepts B (Some (PStr s)) = (float_of_str B s \<noteq> None)"
| "float_accepts B (Some v) = False"

section \<open>Properties\<close>

subsection \<open>Auxiliary facts\<close>

lemmas ladder_defs = missing_to_score_def grade_to_score_def days_inactive_to_score_def

lemmas eval_defs = compute_risk_def build_recommendations_def dict_get_def ladder_defs
  append_if_def float_overflow_bound_def RISK_THRESHOLD_default_def risk_level_def
  scenario_A_def scenario_B_def factors_A_def factors_B_def

lemma py_ge_trans: "py_ge a b \<Longrightarrow> py_ge b c \<Longrightarrow> py_ge a c"
  by (cases a; cases b; cases c) auto

lemma missing_nonneg: "0 \<le> fst (missing_to_score m)"
  by (simp add: missing_to_score_def)

lemma grade_nonneg: "0 \<le> fst (grade_to_score g)"
  by (simp add: grade_to_score_def)

lemma days_nonneg: "0 \<le> fst (days_inactive_to_score d)"
  by (simp add: days_inactive_to_score_def)

lemma missing_zero_iff:
  "fst (missing_to_score m) = 0 \<longleftrightarrow> snd (missing_to_score m) = None"
  by (simp add: missing_to_score_def)

lemma grade_zero_iff:
  "fst (grade_to_score g) = 0 \<longleftrightarrow> snd (grade_to_score g) = None"
  by (simp add: grade_to_score_def)

lemma days_zero_iff:
  "fst (days_inactive_to_score d) = 0 \<longleftrightarrow> snd (days_inactive_to_score d) = None"
  by (simp add: days_inactive_to_score_def)

lemma missing_label: "snd (missing_to_score m) \<noteq> Some []"
  by (simp add: missing_to_score_def)

lemma grade_label: "snd (grade_to_score g) \<noteq> Some []"
  by (simp add: grade_to_score_def)

lemma days_label: "snd (days_inactive_to_score d) \<noteq> Some []"
  by (simp add: days_inactive_to_score_def)

lemma missing_mono: "m \<le> m' \<Longrightarrow> fst (missing_to_score m) \<le> fst (missing_to_score m')"
  by (simp add: missing_to_score_def)

lemma grade_mono: "g' \<le> g \<Longrightarrow> fst (grade_to_score g) \<le> fst (grade_to_score g')"
  by (simp add: grade_to_score_def)

lemma days_mono:
  assumes "py_ge d' d"
  shows "fst (days_inactive_to_score d) \<le> fst (days_inactive_to_score d')"
  using py_ge_trans [OF assms, of "Fin 7"] py_ge_trans [OF assms, of "Fin 4"]
    py_ge_trans [OF assms, of "Fin 2"]
  by (auto simp: days_inactive_to_score_def)

lemma length_append_if: "length (append_if xs f) \<le> Suc (length xs)"
  by (simp add: append_if_def split: option.splits)

lemma append_if_Nil: "append_if xs f = [] \<longleftrightarrow> xs = [] \<and> (f = None \<or> f = Some [])"
  by (simp add: append_if_def split: option.splits)

lemma dict_get_upd:
  "dict_get (p(k \<mapsto> v)) k' dflt = (if k' = k then v else dict_get p k' dflt)"
  by (simp add: dict_get_def)

lemma dict_get_absent:
  "p k = None \<Longrightarrow> dict_get (p(k \<mapsto> dflt)) k' dflt = dict_get p k' dflt"
  by (simp add: dict_get_def)

lemma py_int_accepts:
  "(\<exists>n. py_int B (dict_get p k (PInt 0)) = Inr n) \<longleftrightarrow> int_accepts B (p k)"
  by (cases "(B, p k)" rule: int_accepts.cases)
     (auto simp: dict_get_def split: option.splits)

lemma py_float_accepts:
  "(\<exists>x. py_float B (dict_get p k (PInt 0)) = Inr x) \<longleftrightarrow> float_accepts B (p k)"
  by (cases "(B, p k)" rule: float_accepts.cases)
     (auto simp: dict_get_def float_overflow_bound_def split: option.splits)

lemma raises_iff_not_returns: "(\<exists>e. x = Inl e) \<longleftrightarrow> \<not> (\<exists>y. x = Inr y)"
  by (cases x) auto

text \<open>What a returning call of \<open>compute_risk\<close> returns: the three coercions succeeded,
  the score is the clamped sum of the partial scores and the factors are the labels in
  the order missing, grade, inactivity.\<close>

lemma compute_risk_Inr:
  "compute_risk B payload = Inr (score, factors) \<longleftrightarrow>
     (\<exists>m g d. py_int B (dict_get payload ''missing_14d'' (PInt 0)) = Inr m \<and>
              py_int B (dict_get payload ''avg_grade_pct'' (PInt 0)) = Inr g \<and>
              py_float B (dict_get payload ''days_inactive'' (PInt 0)) = Inr d \<and>
              score = min (fst (missing_to_score m) + fst (grade_to_score g)
                           + fst (days_inactive_to_score d)) 1 \<and>
              factors = append_if (append_if (append_if [] (snd (missing_to_score m)))
                           (snd (grade_to_score g))) (snd (days_inactive_to_score d)))"
  by (auto simp: compute_risk_def Let_def split: sum.splits prod.splits)

lemma compute_risk_returns:
  "(\<exists>r. compute_risk B payload = Inr r) \<longleftrightarrow>
     int_accepts B (payload ''missing_14d'') \<and> int_accepts B (payload ''avg_grade_pct'') \<and>
     float_accepts B (payload ''days_inactive'')"
proof -
  have "(\<exists>r. compute_risk B payload = Inr r) \<longleftrightarrow>
     (\<exists>m. py_int B (dict_get payload ''missing_14d'' (PInt 0)) = Inr m) \<and>
     (\<exists>g. py_int B (dict_get payload ''avg_grade_pct'' (PInt 0)) = Inr g) \<and>
     (\<exists>d. py_float B (dict_get payload ''days_inactive'' (PInt 0)) = Inr d)"
    by (auto simp: compute_risk_def Let_def split: sum.splits prod.splits)
  then show ?thesis by (simp only: py_int_accepts py_float_accepts)
qed

lemma build_recommendations_returns:
  "(\<exists>recs. build_recommendations B thr payload risk_score factors = Inr recs) \<longleftrightarrow>
     int_accepts B (payload ''missing_14d'') \<and> int_accepts B (payload ''avg_grade_pct'') \<and>
     float_accepts B (payload ''days_inactive'') \<and> int_accepts B (payload ''submitted_14d'')"
proof -
  have "(\<exists>recs. build_recommendations B thr payload risk_score factors = Inr recs) \<longleftrightarrow>
     (\<exists>m. py_int B (dict_get payload ''missing_14d'' (PInt 0)) = Inr m) \<and>
     (\<exists>g. py_int B (dict_get payload ''avg_grade_pct'' (PInt 0)) = Inr g) \<and>
     (\<exists>d. py_float B (dict_get payload ''days_inactive'' (PInt 0)) = Inr d) \<and>
     (\<exists>n. py_int B (dict_get payload ''submitted_14d'' (PInt 0)) = Inr n)"
    by (auto simp: build_recommendations_def Let_def split: sum.splits)
  then show ?thesis by (simp only: py_int_accepts py_float_accepts)
qed

subsection \<open>Range of the risk score\<close>

text \<open>
  C1. Each partial score is non-negative, and whenever \<open>compute_risk\<close> returns, its
  score is the sum of the three partial scores clamped at 1 and lies in the closed
  interval from 0 to 1.
\<close>

theorem risk_score_in_unit_interval:
  "0 \<le> fst (missing_to_score m0) \<and> 0 \<le> fst (grade_to_score g0) \<and>
   0 \<le> fst (days_inactive_to_score d0) \<and>
   (compute_risk B payload = Inr (score, factors) \<longrightarrow>
      0 \<le> score \<and> score \<le> 1 \<and>
      (\<exists>m g d. score = min (fst (missing_to_score m) + fst (grade_to_score g)
                            + fst (days_inactive_to_score d)) 1.0))"
proof (intro conjI impI)
  assume "compute_risk B payload = Inr (score, factors)"
  then obtain m g d where
    score: "score = min (fst (missing_to_score m) + fst (grade_to_score g)
                         + fst (days_inactive_to_score d)) 1"
    unfolding compute_risk_Inr by blast
  have "0 \<le> fst (missing_to_score m) + fst (grade_to_score g) + fst (days_inactive_to_score d)"
    by (intro add_nonneg_nonneg missing_nonneg grade_nonneg days_nonneg)
  then show "0 \<le> score" and "score \<le> 1" unfolding score by simp_all
  show "\<exists>m g d. score = min (fst (missing_to_score m) + fst (grade_to_score g)
                            + fst (days_inactive_to_score d)) 1.0"
    using score by auto
qed (rule missing_nonneg grade_nonneg days_nonneg)+

text \<open>Witness for C1: the docstring's example request scores 0.63.\<close>

theorem risk_score_in_unit_interval_witness:
  "compute_risk no_parse scenario_A = Inr (0.63, factors_A) \<and> (0::real) \<le> 0.63 \<and> (0.63::real) \<le> 1"
  using risk_score_in_unit_interval
    [where B = no_parse and payload = scenario_A and score = "0.63" and factors = factors_A]
  by (simp add: eval_defs)

subsection \<open>The empty signal set\<close>

text \<open>
  Counterexample to C2: on the empty payload the grade defaults to 0, which is below
  70, so \<open>compute_risk\<close> does not return score 0 with no factor, and the builder returns
  more than the steady-pace string, both for the claimed scorer output and for the
  scorer's real output.
\<close>

theorem empty_signals_counterexample:
  "compute_risk no_parse Map.empty \<noteq> Inr (0.0, []) \<and>
   build_recommendations no_parse RISK_THRESHOLD_default Map.empty (Fin 0.0) []
     \<noteq> Inr [rec_steady] \<and>
   build_recommendations no_parse RISK_THRESHOLD_default Map.empty (Fin 0.35)
       [''Average grade < 70%'']
     \<noteq> Inr [rec_steady]"
  by (simp add: eval_defs)

text \<open>
  C2, amended. On the empty payload \<open>compute_risk\<close> returns 0.35 with the single factor
  "Average grade < 70%", and \<open>build_recommendations\<close>, given that output and the default
  threshold, returns the practice pair, the steady-pace string, the start-with-easiest
  string and the "Why this plan" line. The zero-risk result of the claim is that of a
  payload holding a grade of at least 85 and a non-zero submission count: score 0, no
  factor, and exactly the steady-pace string.
\<close>

theorem empty_signals_result:
  "compute_risk B Map.empty = Inr (0.35, [''Average grade < 70%'']) \<and>
   build_recommendations B RISK_THRESHOLD_default Map.empty (Fin 0.35) [''Average grade < 70%'']
     = Inr [rec_practice, rec_office_hours, rec_steady, rec_easiest,
            ''Why this plan: Average grade < 70%.''] \<and>
   (85 \<le> g \<and> n \<noteq> 0 \<longrightarrow>
      compute_risk B [''avg_grade_pct'' \<mapsto> PInt g, ''submitted_14d'' \<mapsto> PInt n] = Inr (0.0, []) \<and>
      build_recommendations B RISK_THRESHOLD_default
         [''avg_grade_pct'' \<mapsto> PInt g, ''submitted_14d'' \<mapsto> PInt n] (Fin 0.0) []
        = Inr [rec_steady])"
  by (simp add: eval_defs)

text \<open>Witness for the amended C2: grade 85 and one submission.\<close>

theorem empty_signals_result_witness:
  "(85::int) \<le> 85 \<and> (1::int) \<noteq> 0 \<and>
   compute_risk no_parse [''avg_grade_pct'' \<mapsto> PInt 85, ''submitted_14d'' \<mapsto> PInt 1]
     = Inr (0.0, []) \<and>
   build_recommendations no_parse RISK_THRESHOLD_default
      [''avg_grade_pct'' \<mapsto> PInt 85, ''submitted_14d'' \<mapsto> PInt 1] (Fin 0.0) []
     = Inr [rec_steady]"
  using empty_signals_result [where B = no_parse and g = 85 and n = 1]
  by simp

subsection \<open>Absent and malformed signal values\<close>

text \<open>
  Counterexample to C3: a signal key bound to JSON \<^verbatim>\<open>null\<close> is not read as 0;
  \<^verbatim>\<open>int(None)\<close> raises \<^verbatim>\<open>TypeError\<close> in both entry points.
\<close>

theorem malformed_signal_counterexample:
  "compute_risk no_parse [''missing_14d'' \<mapsto> PNone] = Inl TypeError \<and>
   build_recommendations no_parse RISK_THRESHOLD_default [''missing_14d'' \<mapsto> PNone] (Fin 0.0) []
     = Inl TypeError"
  by (simp add: eval_defs)

text \<open>
  C3, amended. An absent key is read as its default 0: binding it to the integer 0
  changes neither result. \<open>compute_risk\<close> returns a normal result exactly when each of
  \<open>missing_14d\<close> and \<open>avg_grade_pct\<close> is absent or holds a value that \<^verbatim>\<open>int\<close> converts
  and \<open>days_inactive\<close> is absent or holds a value that \<^verbatim>\<open>float\<close> converts;
  \<open>build_recommendations\<close> returns one exactly when, in addition, \<open>submitted_14d\<close> is
  absent or holds a value that \<^verbatim>\<open>int\<close> converts. In every other case the call raises.
\<close>

theorem absent_signal_is_default:
  "(payload k = None \<longrightarrow>
      compute_risk B (payload(k \<mapsto> PInt 0)) = compute_risk B payload \<and>
      build_recommendations B thr (payload(k \<mapsto> PInt 0)) risk_score factors
        = build_recommendations B thr payload risk_score factors) \<and>
   ((\<exists>score fs. compute_risk B payload = Inr (score, fs)) \<longleftrightarrow>
      int_accepts B (payload ''missing_14d'') \<and> int_accepts B (payload ''avg_grade_pct'') \<and>
      float_accepts B (payload ''days_inactive'')) \<and>
   ((\<exists>e. compute_risk B payload = Inl e) \<longleftrightarrow>
      \<not> (int_accepts B (payload ''missing_14d'') \<and> int_accepts B (payload ''avg_grade_pct'') \<and>
         float_accepts B (payload ''days_inactive''))) \<and>
   ((\<exists>recs. build_recommendations B thr payload risk_score factors = Inr recs) \<longleftrightarrow>
      int_accepts B (payload ''missing_14d'') \<and> int_accepts B (payload ''avg_grade_pct'') \<and>
      float_accepts B (payload ''days_inactive'') \<and> int_accepts B (payload ''submitted_14d'')) \<and>
   ((\<exists>e. build_recommendations B thr payload risk_score factors = Inl e) \<longleftrightarrow>
      \<not> (int_accepts B (payload ''missing_14d'') \<and> int_accepts B (payload ''avg_grade_pct'') \<and>
         float_accepts B (payload ''days_inactive'') \<and> int_accepts B (payload ''submitted_14d'')))"
proof (intro conjI impI)
  assume "payload k = None"
  then show "compute_risk B (payload(k \<mapsto> PInt 0)) = compute_risk B payload"
    by (simp add: compute_risk_def dict_get_absent cong: sum.case_cong)
next
  assume "payload k = None"
  then show "build_recommendations B thr (payload(k \<mapsto> PInt 0)) risk_score factors
        = build_recommendations B thr payload risk_score factors"
    by (simp add: build_recommendations_def dict_get_absent cong: sum.case_cong)
next
  show "(\<exists>score fs. compute_risk B payload = Inr (score, fs)) \<longleftrightarrow>
      int_accepts B (payload ''missing_14d'') \<and> int_accepts B (payload ''avg_grade_pct'') \<and>
      float_accepts B (payload ''days_inactive'')"
    using compute_risk_returns [of B payload] by simp
next
  show "(\<exists>e. compute_risk B payload = Inl e) \<longleftrightarrow>
      \<not> (int_accepts B (payload ''missing_14d'') \<and> int_accepts B (payload ''avg_grade_pct'') \<and>
         float_accepts B (payload ''days_inactive''))"
    unfolding raises_iff_not_returns compute_risk_returns ..
next
  show "(\<exists>recs. build_recommendations B thr payload risk_score factors = Inr recs) \<longleftrightarrow>
      int_accepts B (payload ''missing_14d'') \<and> int_accepts B (payload ''avg_grade_pct'') \<and>
      float_accepts B (payload ''days_inactive'') \<and> int_accepts B (payload ''submitted_14d'')"
    by (rule build_recommendations_returns)
next
  show "(\<exists>e. build_recommendations B thr payload risk_score factors = Inl e) \<longleftrightarrow>
      \<not> (int_accepts B (payload ''missing_14d'') \<and> int_accepts B (payload ''avg_grade_pct'') \<and>
         float_accepts B (payload ''days_inactive'') \<and> int_accepts B (payload ''submitted_14d''))"
    unfolding raises_iff_not_returns build_recommendations_returns ..
qed

text \<open>Witness for the amended C3: a payload holding only \<open>missing_14d = 2\<close>, with the
  absent grade bound to 0, returns; the payload holding \<^verbatim>\<open>null\<close> there raises.\<close>

theorem absent_signal_is_default_witness:
  "[''missing_14d'' \<mapsto> PInt 2] ''avg_grade_pct'' = None \<and>
   int_accepts no_parse ([''missing_14d'' \<mapsto> PInt 2] ''missing_14d'') \<and>
   int_accepts no_parse ([''missing_14d'' \<mapsto> PInt 2] ''avg_grade_pct'') \<and>
   float_accepts no_parse ([''missing_14d'' \<mapsto> PInt 2] ''days_inactive'') \<and>
   int_accepts no_parse ([''missing_14d'' \<mapsto> PInt 2] ''submitted_14d'') \<and>
   compute_risk no_parse [''missing_14d'' \<mapsto> PInt 2, ''avg_grade_pct'' \<mapsto> PInt 0]
     = compute_risk no_parse [''missing_14d'' \<mapsto> PInt 2] \<and>
   compute_risk no_parse [''missing_14d'' \<mapsto> PInt 2]
     = Inr (0.60, [''2 missing assignments (14d)'', ''Average grade < 70%'']) \<and>
   build_recommendations no_parse RISK_THRESHOLD_default [''missing_14d'' \<mapsto> PInt 2] (Fin 0.60) []
     = Inr [rec_plan48, rec_email, rec_practice, rec_office_hours, rec_steady, rec_easiest] \<and>
   \<not> int_accepts no_parse ([''missing_14d'' \<mapsto> PNone] ''missing_14d'') \<and>
   (\<exists>e. compute_risk no_parse [''missing_14d'' \<mapsto> PNone] = Inl e) \<and>
   (\<exists>e. build_recommendations no_parse RISK_THRESHOLD_default [''missing_14d'' \<mapsto> PNone]
           (Fin 0.60) [] = Inl e)"
  using absent_signal_is_default
    [where B = no_parse and payload = "[''missing_14d'' \<mapsto> PInt 2]" and k = "''avg_grade_pct''"
       and thr = RISK_THRESHOLD_default and risk_score = "Fin 0.60" and factors = "[]"]
    absent_signal_is_default
    [where B = no_parse and payload = "[''missing_14d'' \<mapsto> PNone]" and k = "''avg_grade_pct''"
       and thr = RISK_THRESHOLD_default and risk_score = "Fin 0.60" and factors = "[]"]
  by (simp add: eval_defs)

subsection \<open>Monotonicity\<close>

text \<open>
  C4. Take two payloads that differ in one signal only, both values converted by the
  source's coercion, the second at least as severe: a larger \<open>missing_14d\<close>, a smaller
  \<open>avg_grade_pct\<close>, or a \<open>days_inactive\<close> that is \<^verbatim>\<open>>=\<close> the first. If the scorer
  returns on the first, it returns on the second with a score at least as large.
\<close>

theorem risk_score_monotone:
  "(py_int B v = Inr m \<and> py_int B v' = Inr m' \<and> m \<le> m' \<and>
    compute_risk B (payload(''missing_14d'' \<mapsto> v)) = Inr (score, factors) \<longrightarrow>
      (\<exists>score' factors'. compute_risk B (payload(''missing_14d'' \<mapsto> v')) = Inr (score', factors')
          \<and> score \<le> score')) \<and>
   (py_int B w = Inr g \<and> py_int B w' = Inr g' \<and> g' \<le> g \<and>
    compute_risk B (payload(''avg_grade_pct'' \<mapsto> w)) = Inr (score, factors) \<longrightarrow>
      (\<exists>score' factors'. compute_risk B (payload(''avg_grade_pct'' \<mapsto> w')) = Inr (score', factors')
          \<and> score \<le> score')) \<and>
   (py_float B u = Inr d \<and> py_float B u' = Inr d' \<and> py_ge d' d \<and>
    compute_risk B (payload(''days_inactive'' \<mapsto> u)) = Inr (score, factors) \<longrightarrow>
      (\<exists>score' factors'. compute_risk B (payload(''days_inactive'' \<mapsto> u')) = Inr (score', factors')
          \<and> score \<le> score'))"
proof (intro conjI impI; elim conjE)
  assume "py_int B v = Inr m" "py_int B v' = Inr m'" "m \<le> m'"
    "compute_risk B (payload(''missing_14d'' \<mapsto> v)) = Inr (score, factors)"
  then show "\<exists>score' factors'. compute_risk B (payload(''missing_14d'' \<mapsto> v')) = Inr (score', factors')
          \<and> score \<le> score'"
    using missing_mono [of m m']
    by (auto simp: compute_risk_Inr dict_get_upd)
next
  assume "py_int B w = Inr g" "py_int B w' = Inr g'" "g' \<le> g"
    "compute_risk B (payload(''avg_grade_pct'' \<mapsto> w)) = Inr (score, factors)"
  then show "\<exists>score' factors'. compute_risk B (payload(''avg_grade_pct'' \<mapsto> w')) = Inr (score', factors')
          \<and> score \<le> score'"
    using grade_mono [of g' g]
    by (auto simp: compute_risk_Inr dict_get_upd)
next
  assume "py_float B u = Inr d" "py_float B u' = Inr d'" "py_ge d' d"
    "compute_risk B (payload(''days_inactive'' \<mapsto> u)) = Inr (score, factors)"
  then show "\<exists>score' factors'. compute_risk B (payload(''days_inactive'' \<mapsto> u')) = Inr (score', factors')
          \<and> score \<le> score'"
    using days_mono [of d' d]
    by (auto simp: compute_risk_Inr dict_get_upd)
qed

text \<open>Witness for C4: from the docstring's example, \<open>missing_14d\<close> 2 to 3 raises the
  score from 0.63 to 0.73, a grade of 60 instead of 72 to 0.78, and 8 inactive days
  instead of 5 to 0.75.\<close>

theorem risk_score_monotone_witness:
  "py_int no_parse (PInt 2) = Inr 2 \<and> py_int no_parse (PInt 3) = Inr 3 \<and> (2::int) \<le> 3 \<and>
   py_int no_parse (PInt 72) = Inr 72 \<and> py_int no_parse (PInt 60) = Inr 60 \<and> (60::int) \<le> 72 \<and>
   py_float no_parse (PInt 5) = Inr (Fin 5) \<and> py_float no_parse (PInt 8) = Inr (Fin 8) \<and>
   py_ge (Fin 8) (Fin 5) \<and>
   compute_risk no_parse (scenario_A(''missing_14d'' \<mapsto> PInt 2)) = Inr (0.63, factors_A) \<and>
   compute_risk no_parse (scenario_A(''avg_grade_pct'' \<mapsto> PInt 72)) = Inr (0.63, factors_A) \<and>
   compute_risk no_parse (scenario_A(''days_inactive'' \<mapsto> PInt 5)) = Inr (0.63, factors_A) \<and>
   (\<exists>score' factors'. compute_risk no_parse (scenario_A(''missing_14d'' \<mapsto> PInt 3))
        = Inr (score', factors') \<and> 0.63 \<le> score') \<and>
   (\<exists>score' factors'. compute_risk no_parse (scenario_A(''avg_grade_pct'' \<mapsto> PInt 60))
        = Inr (score', factors') \<and> 0.63 \<le> score') \<and>
   (\<exists>score' factors'. compute_risk no_parse (scenario_A(''days_inactive'' \<mapsto> PInt 8))
        = Inr (score', factors') \<and> 0.63 \<le> score')"
  using risk_score_monotone
    [where B = no_parse and payload = scenario_A and score = "0.63" and factors = factors_A
       and v = "PInt 2" and v' = "PInt 3" and m = 2 and m' = 3
       and w = "PInt 72" and w' = "PInt 60" and g = 72 and g' = 60
       and u = "PInt 5" and u' = "PInt 8" and d = "Fin 5" and d' = "Fin 8"]
  by (simp add: eval_defs)

subsection \<open>The grade ladder\<close>

text \<open>
  C5. The grade ladder returns the first matching band only: a grade of 65 gives the
  one label "Average grade < 70%", and as the only signal of a payload it makes the
  factor list exactly that label. The boundary grades fall into the lower-severity
  band: 70 into the band below 80, 80 into the band below 85 with partial score 0.10,
  and 85 into no band.
\<close>

theorem grade_ladder_first_match:
  "grade_to_score 65 = (0.35, Some ''Average grade < 70%'') \<and>
   grade_to_score 70 = (0.20, Some ''Average grade < 80%'') \<and>
   grade_to_score 80 = (0.10, Some ''Average grade < 85%'') \<and>
   grade_to_score 85 = (0.0, None) \<and>
   compute_risk B [''avg_grade_pct'' \<mapsto> PInt 65] = Inr (0.35, [''Average grade < 70%''])"
  by (simp add: eval_defs)

subsection \<open>The high-risk scenario\<close>

text \<open>
  C6. For \<open>missing_14d = 3\<close>, \<open>avg_grade_pct = 60\<close>, \<open>days_inactive = 8\<close> and
  \<open>submitted_14d = 0\<close> the score is 1, the level at the default threshold is HIGH, and
  the recommendations are, in this order: the missing-assignments pair, the
  grade-practice pair, the momentum-restart string, the weekly-schedule and
  active-recall pair, the start-with-easiest string and the "Why this plan" line.
\<close>

theorem scenario_B_result:
  "compute_risk B scenario_B = Inr (1.00, factors_B) \<and>
   risk_level RISK_THRESHOLD_default 1.00 = ''HIGH'' \<and>
   build_recommendations B RISK_THRESHOLD_default scenario_B (Fin 1.00) factors_B
     = Inr [rec_plan48, rec_email, rec_practice, rec_office_hours, rec_momentum,
            rec_schedule, rec_recall, rec_easiest,
            ''Why this plan: 3+ missing assignments (14d), Average grade < 70%, Inactive 7+ days.'']"
  by (simp add: eval_defs)

subsection \<open>Factors and score\<close>

text \<open>
  C8. Whenever \<open>compute_risk\<close> returns, the factor list has at most three entries, and
  it is empty exactly when the score is 0.
\<close>

theorem factors_empty_iff_zero_score:
  assumes "compute_risk B payload = Inr (score, factors)"
  shows "length factors \<le> 3 \<and> (factors = [] \<longleftrightarrow> score = 0.0)"
proof -
  from assms obtain m g d where
    score: "score = min (fst (missing_to_score m) + fst (grade_to_score g)
                         + fst (days_inactive_to_score d)) 1"
    and factors: "factors = append_if (append_if (append_if [] (snd (missing_to_score m)))
                         (snd (grade_to_score g))) (snd (days_inactive_to_score d))"
    unfolding compute_risk_Inr by blast
  let ?a = "fst (missing_to_score m)" and ?b = "fst (grade_to_score g)"
    and ?c = "fst (days_inactive_to_score d)"
  have nonneg: "0 \<le> ?a" "0 \<le> ?b" "0 \<le> ?c"
    by (rule missing_nonneg grade_nonneg days_nonneg)+
  have len: "length factors \<le> 3"
  proof -
    have "length (append_if [] (snd (missing_to_score m))) \<le> 1"
      using length_append_if [of "[]"] by simp
    then have "length (append_if (append_if [] (snd (missing_to_score m)))
                 (snd (grade_to_score g))) \<le> 2"
      using length_append_if [of "append_if [] (snd (missing_to_score m))" "snd (grade_to_score g)"]
      by linarith
    then show ?thesis
      unfolding factors
      using length_append_if [of "append_if (append_if [] (snd (missing_to_score m)))
                 (snd (grade_to_score g))" "snd (days_inactive_to_score d)"]
      by linarith
  qed
  have "factors = [] \<longleftrightarrow> ?a = 0 \<and> ?b = 0 \<and> ?c = 0"
    unfolding factors
    by (simp add: append_if_Nil missing_label grade_label days_label
          missing_zero_iff grade_zero_iff days_zero_iff)
  also have "\<dots> \<longleftrightarrow> score = 0"
    unfolding score using nonneg by (auto simp: min_def)
  finally show ?thesis using len by simp
qed

text \<open>Witness for C8: the docstring's example has three factors and score 0.63.\<close>

theorem factors_empty_iff_zero_score_witness:
  "compute_risk no_parse scenario_A = Inr (0.63, factors_A) \<and>
   length factors_A \<le> 3 \<and> (factors_A = [] \<longleftrightarrow> (0.63::real) = 0.0)"
  using factors_empty_iff_zero_score
    [where B = no_parse and payload = scenario_A and score = "0.63" and factors = factors_A]
  by (simp add: eval_defs)

subsection \<open>Negative inputs\<close>

text \<open>
  C9. A negative \<open>missing_14d\<close> and a negative \<open>days_inactive\<close> (a negative finite
  float or minus infinity) give partial score 0 and no factor; a negative
  \<open>avg_grade_pct\<close> gives the first grade band, 0.35 with "Average grade < 70%".
\<close>

theorem negative_inputs:
  "(m < 0 \<longrightarrow> missing_to_score m = (0.0, None)) \<and>
   (r < 0 \<longrightarrow> days_inactive_to_score (Fin r) = (0.0, None)) \<and>
   days_inactive_to_score NInf = (0.0, None) \<and>
   (g < 0 \<longrightarrow> grade_to_score g = (0.35, Some ''Average grade < 70%''))"
  by (simp add: ladder_defs)

text \<open>Witness for C9 at -1.\<close>

theorem negative_inputs_witness:
  "(-1::int) < 0 \<and> missing_to_score (-1) = (0.0, None) \<and>
   (-1::real) < 0 \<and> days_inactive_to_score (Fin (-1)) = (0.0, None) \<and>
   grade_to_score (-1) = (0.35, Some ''Average grade < 70%'')"
  using negative_inputs [where m = "-1" and r = "-1" and g = "-1"]
  by simp

subsection \<open>The recommendation list is never empty\<close>

text \<open>
  C10. Every list that \<open>build_recommendations\<close> returns is non-empty, for any payload,
  threshold, score and factor list: one of the two branches of the study-plan step
  appends.
\<close>

theorem recommendations_nonempty:
  assumes "build_recommendations B thr payload risk_score factors = Inr recs"
  shows "recs \<noteq> []"
  using assms
  by (auto simp: build_recommendations_def Let_def split: sum.splits if_splits)

text \<open>Witness for C10: the recommendations of the docstring's example.\<close>

theorem recommendations_nonempty_witness:
  "build_recommendations no_parse RISK_THRESHOLD_default scenario_A (Fin 0.63) factors_A
     = Inr [rec_plan48, rec_email, rec_practice, rec_office_hours, rec_momentum, rec_steady,
            ''Why this plan: 2 missing assignments (14d), Average grade < 80%, Inactive 4+ days.'']
   \<and> [rec_plan48, rec_email, rec_practice, rec_office_hours, rec_momentum, rec_steady,
            ''Why this plan: 2 missing assignments (14d), Average grade < 80%, Inactive 4+ days.'']
       \<noteq> []"
  using recommendations_nonempty
    [where B = no_parse and thr = RISK_THRESHOLD_default and payload = scenario_A
       and risk_score = "Fin 0.63" and factors = factors_A
       and recs = "[rec_plan48, rec_email, rec_practice, rec_office_hours, rec_momentum, rec_steady,
            ''Why this plan: 2 missing assignments (14d), Average grade < 80%, Inactive 4+ days.'']"]
  by (simp add: eval_defs)

end
